theory Spec2Isabelle
  imports Main "HOL-Library.AList" "HOL-Library.Word"
begin

section \<open>Python values\<close>

text \<open>
  The values that flow through \<^verbatim>\<open>app.py\<close> are what \<^verbatim>\<open>response.json()\<close> and the mock
  generator produce: \<^verbatim>\<open>None\<close>, booleans, integers, floats, strings, lists and dicts with
  string keys. A dict is an association list in insertion order (Python keeps it); its keys
  are pairwise distinct. A float is its IEEE 754 binary64 bit pattern.
\<close>

datatype pyval =
    PNone
  | PBool bool
  | PInt int
  | PFloat "64 word"
  | PStr string
  | PList "pyval list"
  | PDict "(string \<times> pyval) list"

text \<open>
  Python's truth value of an object, as \<^verbatim>\<open>if data[k]\<close> and \<^verbatim>\<open>if others\<close> test it.
  A float is false exactly when it is \<^verbatim>\<open>0.0\<close> or \<^verbatim>\<open>-0.0\<close>: all bits below the sign bit
  are zero.
\<close>

fun truthy :: "pyval \<Rightarrow> bool" where
  "truthy PNone = False"
| "truthy (PBool b) = b"
| "truthy (PInt i) = (i \<noteq> 0)"
| "truthy (PFloat w) = (take_bit 63 w \<noteq> 0)"
| "truthy (PStr s) = (s \<noteq> [])"
| "truthy (PList xs) = (xs \<noteq> [])"
| "truthy (PDict d) = (d \<noteq> [])"

text \<open>\<^verbatim>\<open>d.get(k)\<close> on a value: the entry of a dict, nothing for a missing key or a non-dict.\<close>

fun dict_get :: "pyval \<Rightarrow> string \<Rightarrow> pyval option" where
  "dict_get (PDict d) k = map_of d k"
| "dict_get _ k = None"

text \<open>The keys of a dict value, in order.\<close>

fun keys_of :: "pyval \<Rightarrow> string list" where
  "keys_of (PDict d) = map fst d"
| "keys_of _ = []"

section \<open>Responses and exceptions\<close>

text \<open>
  What \<^verbatim>\<open>app.py\<close> reads of a response of \<^verbatim>\<open>requests\<close>: its \<^verbatim>\<open>status_code\<close>, its
  \<^verbatim>\<open>text\<close>, and what \<^verbatim>\<open>response.json()\<close> does, which is to return the decoded value
  (\<open>Inr\<close>) or to raise (\<open>Inl\<close>).

  What it reads of an exception: \<^verbatim>\<open>str(e)\<close>, the \<^verbatim>\<open>response\<close> attribute, and the class,
  through \<^verbatim>\<open>except ValueError\<close> (line 77), \<^verbatim>\<open>except requests.RequestException\<close>
  (line 122) and \<^verbatim>\<open>except Exception\<close> (line 125). The constructors are the classes these
  three tests tell apart:
  \<^item> \<open>RequestException\<close>: a \<^verbatim>\<open>requests.RequestException\<close> that is not a \<^verbatim>\<open>ValueError\<close>
    (connection error, timeout, ...);
  \<^item> \<open>RequestValueError\<close>: a \<^verbatim>\<open>requests.RequestException\<close> that is a \<^verbatim>\<open>ValueError\<close> too
    (the \<^verbatim>\<open>JSONDecodeError\<close> and \<^verbatim>\<open>InvalidURL\<close> of \<^verbatim>\<open>requests\<close>);
  \<^item> \<open>ValueError\<close>: a \<^verbatim>\<open>ValueError\<close> that is not a \<^verbatim>\<open>requests.RequestException\<close>;
  \<^item> \<open>Exception\<close>: any other subclass of \<^verbatim>\<open>Exception\<close> (\<^verbatim>\<open>RecursionError\<close>,
    \<^verbatim>\<open>IndexError\<close>, ...);
  \<^item> \<open>BaseException\<close>: outside \<^verbatim>\<open>Exception\<close> (\<^verbatim>\<open>KeyboardInterrupt\<close>, \<^verbatim>\<open>SystemExit\<close>).
\<close>

datatype response =
    Response (status_code: int) string (json: "exn + pyval")
and exn =
    RequestException string "response option"
  | RequestValueError string "response option"
  | ValueError string
  | Exception string
  | BaseException string

text \<open>\<^verbatim>\<open>response.text\<close>, the body: the second field.\<close>

fun "text" :: "response \<Rightarrow> string" where
  "text (Response status body decoded) = body"

text \<open>\<^verbatim>\<open>str(e)\<close>\<close>

fun str :: "exn \<Rightarrow> string" where
  "str (RequestException msg resp) = msg"
| "str (RequestValueError msg resp) = msg"
| "str (ValueError msg) = msg"
| "str (Exception msg) = msg"
| "str (BaseException msg) = msg"

text \<open>\<^verbatim>\<open>e.response\<close>, which the handler of line 122 reads of a \<^verbatim>\<open>RequestException\<close> only.\<close>

fun exn_response :: "exn \<Rightarrow> response option" where
  "exn_response (RequestException msg resp) = resp"
| "exn_response (RequestValueError msg resp) = resp"
| "exn_response _ = None"

text \<open>The three \<^verbatim>\<open>isinstance\<close> tests behind the \<^verbatim>\<open>except\<close> clauses.\<close>

fun is_ValueError :: "exn \<Rightarrow> bool" where
  "is_ValueError (RequestValueError msg resp) = True"
| "is_ValueError (ValueError msg) = True"
| "is_ValueError _ = False"

fun is_RequestException :: "exn \<Rightarrow> bool" where
  "is_RequestException (RequestException msg resp) = True"
| "is_RequestException (RequestValueError msg resp) = True"
| "is_RequestException _ = False"

fun is_Exception :: "exn \<Rightarrow> bool" where
  "is_Exception (BaseException msg) = False"
| "is_Exception _ = True"

text \<open>What \<^verbatim>\<open>requests.get\<close> does: it raises, or it returns a response.\<close>

datatype net = Raises exn | Responds response

section \<open>Helpers of \<^verbatim>\<open>app.py\<close>\<close>

subsection \<open>\<^verbatim>\<open>mock_lookup\<close>\<close>

text \<open>
  Subscripting a list, \<^verbatim>\<open>samples[...]\<close>: an index from \<open>0\<close> up to the length reads
  from the front, one from \<open>-1\<close> down to minus the length reads from the back, and any
  other index raises \<^verbatim>\<open>IndexError\<close>, a subclass of \<^verbatim>\<open>Exception\<close>.
\<close>

definition list_getitem :: "'a list \<Rightarrow> int \<Rightarrow> exn + 'a" where
  "list_getitem xs i =
     (if 0 \<le> i \<and> i < int (length xs) then Inr (xs ! nat i)
      else if i < 0 \<and> - int (length xs) \<le> i then Inr (xs ! nat (int (length xs) + i))
      else Inl (Exception ''list index out of range''))"

definition samples :: "string \<Rightarrow> pyval list" where
  "samples term_value =
     [PDict [(''name'', PStr ''Rahul Kumar''), (''mobile'', PStr term_value),
             (''email'', PStr ''rahul.k@example.com'')],
      PDict [(''name'', PStr ''Priya Sharma''), (''mobile'', PStr term_value),
             (''email'', PStr ''priya.sh@example.com'')],
      PDict [(''name'', PStr ''Unknown''), (''mobile'', PStr term_value),
             (''note'', PStr ''No data'')]]"

text \<open>
  \<^verbatim>\<open>hash\<close> is Python's built-in, fixed for the life of a process (it is seeded at
  start-up), so it is a parameter. Python's \<^verbatim>\<open>%\<close> with a positive right operand is
  never negative, as \<open>mod\<close> on \<open>int\<close>.
\<close>

definition mock_lookup :: "(string \<Rightarrow> int) \<Rightarrow> string \<Rightarrow> exn + pyval" where
  "mock_lookup hash term_value =
     list_getitem (samples term_value) (hash term_value mod int (length (samples term_value)))"

subsection \<open>\<^verbatim>\<open>call_api\<close>\<close>

definition API_URL :: string where
  "API_URL = ''https://decryptkarnrwalebkl.wasmer.app/''"

definition TERM_PARAM :: string where
  "TERM_PARAM = ''term''"

definition KEY_PARAM :: string where
  "KEY_PARAM = ''key''"

text \<open>
  \<^verbatim>\<open>requests.get\<close> is the parameter \<open>get\<close>, from the URL, the query parameters and the
  timeout to what the network does. Line 73 is outside the \<^verbatim>\<open>try\<close>, so an exception of
  \<open>get\<close> leaves \<^verbatim>\<open>call_api\<close>. Of the exceptions of \<^verbatim>\<open>response.json()\<close>, line 77
  catches a \<^verbatim>\<open>ValueError\<close> and nothing else: any other one leaves \<^verbatim>\<open>call_api\<close> too.
\<close>

definition call_api ::
  "(string \<Rightarrow> (string \<times> pyval) list \<Rightarrow> int \<Rightarrow> net) \<Rightarrow> pyval \<Rightarrow> string \<Rightarrow> int \<Rightarrow> exn + (pyval \<times> int)"
where
  "call_api get API_KEY term_value timeout =
     (let params = [(KEY_PARAM, API_KEY), (TERM_PARAM, PStr term_value)] in
      case get API_URL params timeout of
        Raises e \<Rightarrow> Inl e
      | Responds response \<Rightarrow>
          (let status = status_code response in
           case json response of
             Inr data \<Rightarrow> Inr (data, status)
           | Inl e \<Rightarrow>
               if is_ValueError e
               then Inr (PDict [(''text'', PStr (text response))], status)
               else Inl e))"

subsection \<open>\<^verbatim>\<open>auto_map_fields\<close>\<close>

definition mapping :: "(string \<times> string list) list" where
  "mapping =
     [(''name'', [''name'', ''fullname'', ''user'']),
      (''mobile'', [''mobile'', ''phone'', ''number'']),
      (''email'', [''email'', ''mail'']),
      (''address'', [''address'', ''location''])]"

text \<open>
  The inner loop \<^verbatim>\<open>for k in keys: if k in data and data[k]: ...; break\<close>: the value of
  the first key that is present with a true value.
\<close>

fun first_truthy :: "(string \<times> pyval) list \<Rightarrow> string list \<Rightarrow> pyval option" where
  "first_truthy data [] = None"
| "first_truthy data (k # keys) =
     (case map_of data k of
        Some v \<Rightarrow> if truthy v then Some v else first_truthy data keys
      | None \<Rightarrow> first_truthy data keys)"

text \<open>The outer loop \<^verbatim>\<open>for out_key, keys in mapping.items()\<close>, with \<open>mapped\<close> as its state.\<close>

fun map_slots ::
  "(string \<times> pyval) list \<Rightarrow> (string \<times> string list) list \<Rightarrow> (string \<times> pyval) list
     \<Rightarrow> (string \<times> pyval) list"
where
  "map_slots data [] mapped = mapped"
| "map_slots data ((out_key, keys) # rest) mapped =
     map_slots data rest
       (case first_truthy data keys of
          Some v \<Rightarrow> AList.update out_key v mapped
        | None \<Rightarrow> mapped)"

text \<open>\<^verbatim>\<open>[key for keys in mapping.values() for key in keys]\<close>\<close>

definition alias_keys :: "string list" where
  "alias_keys = concat (map snd mapping)"

fun auto_map_fields :: "pyval \<Rightarrow> pyval" where
  "auto_map_fields (PDict data) =
     (let mapped = map_slots data mapping [];
          others = filter (\<lambda>(k, v). k \<notin> set alias_keys) data
      in if others \<noteq> [] then PDict (AList.update ''others'' (PDict others) mapped)
         else PDict mapped)"
| "auto_map_fields data = PDict [(''raw'', data)]"

subsection \<open>\<^verbatim>\<open>handle_multiple_results\<close>\<close>

text \<open>The global \<^verbatim>\<open>auto_map\<close> (the sidebar checkbox) is the first argument.\<close>

fun handle_multiple_results :: "bool \<Rightarrow> pyval \<Rightarrow> pyval list" where
  "handle_multiple_results auto_map (PList items) =
     map (\<lambda>item. if auto_map then auto_map_fields item else item) items"
| "handle_multiple_results auto_map (PDict d) =
     (case map_of d ''results'' of
        Some (PList items) \<Rightarrow>
          map (\<lambda>item. if auto_map then auto_map_fields item else item) items
      | _ \<Rightarrow> [if auto_map then auto_map_fields (PDict d) else PDict d])"
| "handle_multiple_results auto_map result =
     [if auto_map then auto_map_fields result else result]"

text \<open>
  The two tests of the dispatcher as predicates: \<^verbatim>\<open>isinstance(result, list)\<close>, and
  \<^verbatim>\<open>isinstance(result, dict) and "results" in result and isinstance(result["results"], list)\<close>.
\<close>

fun is_list :: "pyval \<Rightarrow> bool" where
  "is_list (PList items) = True"
| "is_list _ = False"

fun has_results_list :: "pyval \<Rightarrow> bool" where
  "has_results_list (PDict d) =
     (case map_of d ''results'' of Some v \<Rightarrow> is_list v | None \<Rightarrow> False)"
| "has_results_list _ = False"

section \<open>The lookup action\<close>

text \<open>
  Lines 115 to 127, the \<^verbatim>\<open>try\<close> block of the lookup and its two handlers, in the order
  of the source: \<^verbatim>\<open>requests.RequestException\<close> first, then \<^verbatim>\<open>Exception\<close>. Anything else
  propagates (\<open>Inl\<close>). The status is \<^verbatim>\<open>None\<close> or a number;
  \<^verbatim>\<open>getattr(e.response, "status_code", None)\<close> is \<^verbatim>\<open>None\<close> when the exception carries no
  response. \<^verbatim>\<open>time.sleep(0.2)\<close> changes no value and is left out.
\<close>

definition lookup_action ::
  "bool \<Rightarrow> (string \<Rightarrow> int) \<Rightarrow> (string \<Rightarrow> (string \<times> pyval) list \<Rightarrow> int \<Rightarrow> net) \<Rightarrow> pyval
     \<Rightarrow> string \<Rightarrow> int \<Rightarrow> exn + (pyval \<times> int option)"
where
  "lookup_action use_mock hash get API_KEY term_value timeout =
     (case (if use_mock then
              (case mock_lookup hash term_value of
                 Inl e \<Rightarrow> Inl e
               | Inr raw_result \<Rightarrow> Inr (raw_result, Some 200))
            else
              (case call_api get API_KEY term_value timeout of
                 Inl e \<Rightarrow> Inl e
               | Inr (raw_result, status) \<Rightarrow> Inr (raw_result, Some status))) of
        Inr r \<Rightarrow> Inr r
      | Inl e \<Rightarrow>
          if is_RequestException e then
            Inr (PDict [(''error'', PStr (str e))], map_option status_code (exn_response e))
          else if is_Exception e then
            Inr (PDict [(''error'', PStr (str e))], None)
          else Inl e)"

section \<open>Facts about the field mapper\<close>

lemma alias_keys_eq:
  "alias_keys = [''name'', ''fullname'', ''user'', ''mobile'', ''phone'', ''number'',
                 ''email'', ''mail'', ''address'', ''location'']"
  by (simp add: alias_keys_def mapping_def)

lemma distinct_mapping: "distinct (map fst mapping)"
  by (simp add: mapping_def)

lemma first_truthy_None:
  "(\<And>k. k \<in> set keys \<Longrightarrow> map_of data k = None) \<Longrightarrow> first_truthy data keys = None"
  by (induction keys) simp_all

text \<open>
  What the outer loop leaves under a key: the slot's first true alias when the table has
  the key and an alias is present and true, the old entry otherwise. The table's keys are
  distinct, so no slot is written twice.
\<close>

lemma map_of_map_slots:
  "distinct (map fst table) \<Longrightarrow>
   map_of (map_slots data table mapped) k =
     (case map_of table k of
        Some keys \<Rightarrow> (case first_truthy data keys of Some v \<Rightarrow> Some v | None \<Rightarrow> map_of mapped k)
      | None \<Rightarrow> map_of mapped k)"
proof (induction table arbitrary: mapped)
  case Nil
  then show ?case by simp
next
  case (Cons p table)
  obtain out_key keys where p: "p = (out_key, keys)" by (cases p)
  from Cons.prems have notin: "out_key \<notin> fst ` set table" and dist: "distinct (map fst table)"
    by (simp_all add: p)
  have none: "map_of table out_key = None"
    using notin by (simp add: map_of_eq_None_iff)
  show ?case
    using Cons.IH [OF dist] none
    by (auto simp: p update_conv' split: option.splits)
qed

lemma map_slots_unchanged:
  "\<forall>p \<in> set table. first_truthy data (snd p) = None \<Longrightarrow>
   map_slots data table mapped = mapped"
  by (induction table arbitrary: mapped) auto

lemma distinct_map_slots:
  "distinct (map fst mapped) \<Longrightarrow> distinct (map fst (map_slots data table mapped))"
  by (induction table arbitrary: mapped) (auto simp: distinct_update split: option.splits)

text \<open>The mapper keeps the invariant of a dict: the keys of its result are distinct.\<close>

lemma distinct_keys_auto_map_fields: "distinct (keys_of (auto_map_fields v))"
proof (cases v)
  case (PDict d)
  have "distinct (map fst (map_slots d mapping []))"
    by (rule distinct_map_slots) simp
  then show ?thesis
    by (simp add: PDict Let_def distinct_update)
qed simp_all

lemma dict_get_slot:
  "k \<noteq> ''others'' \<Longrightarrow>
   dict_get (auto_map_fields (PDict d)) k =
     (case map_of mapping k of Some keys \<Rightarrow> first_truthy d keys | None \<Rightarrow> None)"
  by (simp add: Let_def update_conv' map_of_map_slots [OF distinct_mapping] split: option.splits)

lemma dict_get_others:
  "dict_get (auto_map_fields (PDict d)) ''others'' =
     (if filter (\<lambda>(k, v). k \<notin> set alias_keys) d \<noteq> []
      then Some (PDict (filter (\<lambda>(k, v). k \<notin> set alias_keys) d)) else None)"
proof -
  have "map_of mapping ''others'' = None"
    by (simp add: mapping_def)
  then show ?thesis
    by (simp add: Let_def update_conv' map_of_map_slots [OF distinct_mapping])
qed

lemma map_of_others:
  "map_of (filter (\<lambda>(k, v). k \<notin> set alias_keys) d) k =
     (if k \<in> set alias_keys then None else map_of d k)"
  by (induction d) auto

lemma mobile_aliases: "map_of mapping ''mobile'' = Some [''mobile'', ''phone'', ''number'']"
  by (simp add: mapping_def)

section \<open>Facts about the dispatcher and the mock\<close>

lemma handle_multiple_results_fallback:
  "\<not> is_list p \<Longrightarrow> \<not> has_results_list p \<Longrightarrow>
   handle_multiple_results am p = [if am then auto_map_fields p else p]"
  by (cases p) (auto split: option.splits pyval.splits)

lemma mock_lookup_eq:
  "mock_lookup hash t = Inr (samples t ! nat (hash t mod 3))"
  by (simp add: mock_lookup_def list_getitem_def samples_def Let_def)

section \<open>The field mapper: claims C1, C2, C5, C6\<close>

text \<open>
  Claim C1, as stated, at a concrete input: the record holds both \<^verbatim>\<open>mobile\<close> and
  \<^verbatim>\<open>phone\<close>, the value of \<^verbatim>\<open>mobile\<close> is the empty string, and the canonical \<^verbatim>\<open>mobile\<close>
  is the value of \<^verbatim>\<open>phone\<close>, not the value of \<^verbatim>\<open>mobile\<close>.
\<close>

theorem mobile_falsy_phone_wins:
  "map_of [(''mobile'', PStr ''''), (''phone'', PStr ''123'')] ''mobile'' = Some (PStr '''') \<and>
   map_of [(''mobile'', PStr ''''), (''phone'', PStr ''123'')] ''phone'' = Some (PStr ''123'') \<and>
   dict_get (auto_map_fields (PDict [(''mobile'', PStr ''''), (''phone'', PStr ''123'')])) ''mobile''
     = Some (PStr ''123'') \<and>
   dict_get (auto_map_fields (PDict [(''mobile'', PStr ''''), (''phone'', PStr ''123'')])) ''mobile''
     \<noteq> Some (PStr '''')"
  by (simp add: mapping_def alias_keys_def)

text \<open>
  Claim C1, amended: for every record that holds both \<^verbatim>\<open>mobile\<close> and \<^verbatim>\<open>phone\<close> and whose
  \<^verbatim>\<open>mobile\<close> value is true, the canonical \<^verbatim>\<open>mobile\<close> is the input's \<^verbatim>\<open>mobile\<close> value;
  when the \<^verbatim>\<open>mobile\<close> value is false and the \<^verbatim>\<open>phone\<close> value is true, it is the
  \<^verbatim>\<open>phone\<close> value. In every case the slot is the scan of \<^verbatim>\<open>mobile\<close>, \<^verbatim>\<open>phone\<close>,
  \<^verbatim>\<open>number\<close> in this order, stopping at the first alias that is present with a true value.
\<close>

theorem auto_map_fields_mobile_priority:
  "(map_of d ''mobile'' = Some m \<and> map_of d ''phone'' = Some p \<and> truthy m \<longrightarrow>
      dict_get (auto_map_fields (PDict d)) ''mobile'' = Some m) \<and>
   (map_of d ''mobile'' = Some m \<and> map_of d ''phone'' = Some p \<and> \<not> truthy m \<and> truthy p \<longrightarrow>
      dict_get (auto_map_fields (PDict d)) ''mobile'' = Some p) \<and>
   dict_get (auto_map_fields (PDict d)) ''mobile''
     = first_truthy d [''mobile'', ''phone'', ''number'']"
proof -
  have "dict_get (auto_map_fields (PDict d)) ''mobile''
      = first_truthy d [''mobile'', ''phone'', ''number'']"
    by (simp add: dict_get_slot mobile_aliases del: auto_map_fields.simps)
  then show ?thesis by simp
qed

theorem auto_map_fields_mobile_priority_witness:
  "map_of [(''mobile'', PStr ''987''), (''phone'', PStr ''123'')] ''mobile'' = Some (PStr ''987'') \<and>
   map_of [(''mobile'', PStr ''987''), (''phone'', PStr ''123'')] ''phone'' = Some (PStr ''123'') \<and>
   truthy (PStr ''987'') \<and>
   dict_get (auto_map_fields (PDict [(''mobile'', PStr ''987''), (''phone'', PStr ''123'')])) ''mobile''
     = Some (PStr ''987'') \<and>
   map_of [(''mobile'', PInt 0), (''phone'', PStr ''123'')] ''mobile'' = Some (PInt 0) \<and>
   map_of [(''mobile'', PInt 0), (''phone'', PStr ''123'')] ''phone'' = Some (PStr ''123'') \<and>
   \<not> truthy (PInt 0) \<and> truthy (PStr ''123'') \<and>
   dict_get (auto_map_fields (PDict [(''mobile'', PInt 0), (''phone'', PStr ''123'')])) ''mobile''
     = Some (PStr ''123'')"
  using
    auto_map_fields_mobile_priority
      [of "[(''mobile'', PStr ''987''), (''phone'', PStr ''123'')]" "PStr ''987''" "PStr ''123''"]
    auto_map_fields_mobile_priority
      [of "[(''mobile'', PInt 0), (''phone'', PStr ''123'')]" "PInt 0" "PStr ''123''"]
  by simp

text \<open>
  Claim C5, as stated, at a concrete input: the record holds \<^verbatim>\<open>phone\<close> and not
  \<^verbatim>\<open>mobile\<close>, the value of \<^verbatim>\<open>phone\<close> is the empty string, and the result has no
  \<^verbatim>\<open>mobile\<close> at all.
\<close>

theorem phone_falsy_mobile_absent:
  "map_of [(''phone'', PStr '''')] ''mobile'' = None \<and>
   map_of [(''phone'', PStr '''')] ''phone'' = Some (PStr '''') \<and>
   dict_get (auto_map_fields (PDict [(''phone'', PStr '''')])) ''mobile'' = None \<and>
   auto_map_fields (PDict [(''phone'', PStr '''')]) = PDict []"
  by (simp add: mapping_def alias_keys_def)

text \<open>
  Claim C5, amended: for every record that holds \<^verbatim>\<open>phone\<close> with a true value and does
  not hold \<^verbatim>\<open>mobile\<close>, the canonical \<^verbatim>\<open>mobile\<close> is the input's \<^verbatim>\<open>phone\<close> value.
\<close>

theorem auto_map_fields_phone_fallback:
  assumes "map_of d ''mobile'' = None" and "map_of d ''phone'' = Some p" and "truthy p"
  shows "dict_get (auto_map_fields (PDict d)) ''mobile'' = Some p"
  using assms by (simp add: dict_get_slot mobile_aliases del: auto_map_fields.simps)

theorem auto_map_fields_phone_fallback_witness:
  "map_of [(''phone'', PStr ''123'')] ''mobile'' = None \<and>
   map_of [(''phone'', PStr ''123'')] ''phone'' = Some (PStr ''123'') \<and>
   truthy (PStr ''123'') \<and>
   dict_get (auto_map_fields (PDict [(''phone'', PStr ''123'')])) ''mobile'' = Some (PStr ''123'')"
  using auto_map_fields_phone_fallback [of "[(''phone'', PStr ''123'')]" "PStr ''123''"]
  by simp

text \<open>
  Claim C2: every key of the input outside the alias lists is in \<^verbatim>\<open>others\<close> with the
  value it has in the input; when the result has \<^verbatim>\<open>others\<close>, it is a dict, its keys are
  keys of the input, none of them is in an alias list (selected for a slot or not), and so
  none of them is one of the four canonical slots.
\<close>

theorem auto_map_fields_others:
  "(k \<notin> set alias_keys \<and> map_of d k = Some v \<longrightarrow>
      (\<exists>others. dict_get (auto_map_fields (PDict d)) ''others'' = Some (PDict others) \<and>
                map_of others k = Some v)) \<and>
   (dict_get (auto_map_fields (PDict d)) ''others'' = Some x \<longrightarrow>
      set (keys_of x) \<subseteq> set (map fst d) \<and>
      set (keys_of x) \<inter> set alias_keys = {} \<and>
      set (keys_of x) \<inter> set (map fst mapping) = {} \<and>
      (\<exists>others. x = PDict others \<and>
         (\<forall>k'. k' \<in> set alias_keys \<longrightarrow> map_of others k' = None) \<and>
         (\<forall>k'. k' \<notin> set alias_keys \<longrightarrow> map_of others k' = map_of d k')))"
proof (intro conjI impI)
  assume a: "k \<notin> set alias_keys \<and> map_of d k = Some v"
  let ?o = "filter (\<lambda>(k, v). k \<notin> set alias_keys) d"
  from a have m: "map_of ?o k = Some v"
    by (simp add: map_of_others)
  then have "?o \<noteq> []" by auto
  then have "dict_get (auto_map_fields (PDict d)) ''others'' = Some (PDict ?o)"
    by (simp add: dict_get_others del: auto_map_fields.simps)
  with m show "\<exists>others. dict_get (auto_map_fields (PDict d)) ''others'' = Some (PDict others) \<and>
                map_of others k = Some v"
    by blast
next
  assume a: "dict_get (auto_map_fields (PDict d)) ''others'' = Some x"
  let ?o = "filter (\<lambda>(k, v). k \<notin> set alias_keys) d"
  from a have x: "x = PDict ?o"
    by (simp add: dict_get_others del: auto_map_fields.simps split: if_splits)
  show "set (keys_of x) \<subseteq> set (map fst d)"
    by (auto simp: x)
  show "set (keys_of x) \<inter> set alias_keys = {}"
    by (auto simp: x)
  then show "set (keys_of x) \<inter> set (map fst mapping) = {}"
    by (auto simp: alias_keys_def mapping_def)
  show "\<exists>others. x = PDict others \<and>
          (\<forall>k'. k' \<in> set alias_keys \<longrightarrow> map_of others k' = None) \<and>
          (\<forall>k'. k' \<notin> set alias_keys \<longrightarrow> map_of others k' = map_of d k')"
    using x by (simp add: map_of_others)
qed

theorem auto_map_fields_others_witness:
  "''note'' \<notin> set alias_keys \<and>
   map_of [(''name'', PStr ''A''), (''user'', PStr ''B''), (''note'', PStr ''n'')] ''note''
     = Some (PStr ''n'') \<and>
   dict_get (auto_map_fields
       (PDict [(''name'', PStr ''A''), (''user'', PStr ''B''), (''note'', PStr ''n'')])) ''others''
     = Some (PDict [(''note'', PStr ''n'')]) \<and>
   set (keys_of (PDict [(''note'', PStr ''n'')])) \<inter> set alias_keys = {} \<and>
   set (keys_of (PDict [(''note'', PStr ''n'')])) \<inter> set (map fst mapping) = {}"
  using auto_map_fields_others
    [of "''note''" "[(''name'', PStr ''A''), (''user'', PStr ''B''), (''note'', PStr ''n'')]"
        "PStr ''n''" "PDict [(''note'', PStr ''n'')]"]
  by (simp add: alias_keys_eq mapping_def)

text \<open>
  Claim C6, as stated, at the empty input mapping, which it names: no key of the empty
  mapping is in an alias list, and the result is the empty mapping, with no \<^verbatim>\<open>others\<close>
  key.
\<close>

theorem auto_map_fields_empty_no_others:
  "set (map fst ([] :: (string \<times> pyval) list)) \<inter> set alias_keys = {} \<and>
   auto_map_fields (PDict []) = PDict [] \<and>
   dict_get (auto_map_fields (PDict [])) ''others'' = None \<and>
   auto_map_fields (PDict []) \<noteq> PDict [(''others'', PDict [])]"
  by (simp add: mapping_def alias_keys_def)

text \<open>
  Claim C6, amended: for every non-empty record none of whose keys is in an alias list, the
  result has the single key \<^verbatim>\<open>others\<close>, and \<^verbatim>\<open>others\<close> is the whole input; for the empty
  input mapping the result is the empty mapping.
\<close>

theorem auto_map_fields_unrecognized:
  "(d \<noteq> [] \<and> set (map fst d) \<inter> set alias_keys = {} \<longrightarrow>
      auto_map_fields (PDict d) = PDict [(''others'', PDict d)]) \<and>
   auto_map_fields (PDict []) = PDict []"
proof (intro conjI impI)
  assume a: "d \<noteq> [] \<and> set (map fst d) \<inter> set alias_keys = {}"
  then have none: "map_of d k = None" if "k \<in> set alias_keys" for k
    using that by (auto simp: map_of_eq_None_iff)
  have "\<forall>p \<in> set mapping. first_truthy d (snd p) = None"
  proof
    fix p assume "p \<in> set mapping"
    then have "set (snd p) \<subseteq> set alias_keys"
      by (auto simp: alias_keys_def)
    then show "first_truthy d (snd p) = None"
      by (intro first_truthy_None none) auto
  qed
  then have m: "map_slots d mapping [] = []"
    by (rule map_slots_unchanged)
  have "filter (\<lambda>(k, v). k \<notin> set alias_keys) d = d"
    using a by (auto simp: filter_id_conv)
  with m a show "auto_map_fields (PDict d) = PDict [(''others'', PDict d)]"
    by (simp add: Let_def)
next
  show "auto_map_fields (PDict []) = PDict []"
    by (simp add: mapping_def)
qed

theorem auto_map_fields_unrecognized_witness:
  "[(''note'', PStr ''No data''), (''id'', PInt 7)] \<noteq> [] \<and>
   set (map fst [(''note'', PStr ''No data''), (''id'', PInt 7)]) \<inter> set alias_keys = {} \<and>
   auto_map_fields (PDict [(''note'', PStr ''No data''), (''id'', PInt 7)])
     = PDict [(''others'', PDict [(''note'', PStr ''No data''), (''id'', PInt 7)])]"
  using auto_map_fields_unrecognized [of "[(''note'', PStr ''No data''), (''id'', PInt 7)]"]
  by (simp add: alias_keys_eq)

section \<open>The dispatcher: claims C3, C4, C10\<close>

text \<open>
  Claim C3: \<^verbatim>\<open>handle_multiple_results\<close> dispatches on the shape of the payload. A list
  gives one record per element; a mapping whose \<^verbatim>\<open>results\<close> is a list gives one record
  per element of that list; anything else gives the payload as the single record. With
  \<^verbatim>\<open>auto_map\<close> on, the payload \<^verbatim>\<open>{"results": [{"phone": "123"}]}\<close> gives
  \<^verbatim>\<open>[{"mobile": "123"}]\<close>. The number of elements and their order are kept.
\<close>

theorem handle_multiple_results_dispatch:
  "handle_multiple_results am (PList xs)
     = map (\<lambda>item. if am then auto_map_fields item else item) xs \<and>
   (map_of d ''results'' = Some (PList xs) \<longrightarrow>
      handle_multiple_results am (PDict d)
        = map (\<lambda>item. if am then auto_map_fields item else item) xs) \<and>
   (\<not> is_list p \<and> \<not> has_results_list p \<longrightarrow>
      handle_multiple_results am p = [if am then auto_map_fields p else p]) \<and>
   handle_multiple_results True (PDict [(''results'', PList [PDict [(''phone'', PStr ''123'')]])])
     = [PDict [(''mobile'', PStr ''123'')]] \<and>
   length (handle_multiple_results am (PList xs)) = length xs \<and>
   (\<forall>i. i < length xs \<longrightarrow>
      handle_multiple_results am (PList xs) ! i
        = (if am then auto_map_fields (xs ! i) else xs ! i))"
proof (intro conjI impI allI)
  show "handle_multiple_results True
          (PDict [(''results'', PList [PDict [(''phone'', PStr ''123'')]])])
        = [PDict [(''mobile'', PStr ''123'')]]"
    by (simp add: mapping_def alias_keys_def)
next
  assume "\<not> is_list p \<and> \<not> has_results_list p"
  then show "handle_multiple_results am p = [if am then auto_map_fields p else p]"
    by (simp add: handle_multiple_results_fallback)
qed simp_all

theorem handle_multiple_results_dispatch_witness:
  "map_of [(''count'', PInt 2), (''results'', PList [PDict [(''name'', PStr ''A'')], PStr ''x''])]
       ''results''
     = Some (PList [PDict [(''name'', PStr ''A'')], PStr ''x'']) \<and>
   handle_multiple_results True
       (PDict [(''count'', PInt 2), (''results'', PList [PDict [(''name'', PStr ''A'')], PStr ''x''])])
     = [PDict [(''name'', PStr ''A'')], PDict [(''raw'', PStr ''x'')]] \<and>
   \<not> is_list (PStr ''hello'') \<and> \<not> has_results_list (PStr ''hello'') \<and>
   handle_multiple_results True (PStr ''hello'') = [PDict [(''raw'', PStr ''hello'')]] \<and>
   1 < length [PDict [(''name'', PStr ''A'')], PStr ''x''] \<and>
   handle_multiple_results True (PList [PDict [(''name'', PStr ''A'')], PStr ''x'']) ! 1
     = PDict [(''raw'', PStr ''x'')]"
  using handle_multiple_results_dispatch
    [of True "[PDict [(''name'', PStr ''A'')], PStr ''x'']"
        "[(''count'', PInt 2), (''results'', PList [PDict [(''name'', PStr ''A'')], PStr ''x''])]"
        "PStr ''hello''"]
  by (simp add: mapping_def alias_keys_def)

text \<open>
  Claim C4, as stated, at a concrete input: with \<^verbatim>\<open>auto_map\<close> off the scalar payload
  \<^verbatim>\<open>"hello"\<close>, which is not a mapping, comes back as it is and not as
  \<^verbatim>\<open>{"raw": "hello"}\<close>; so does a scalar element of a list.
\<close>

theorem no_auto_map_scalar_not_wrapped:
  "\<not> is_list (PStr ''hello'') \<and> \<not> has_results_list (PStr ''hello'') \<and>
   handle_multiple_results False (PStr ''hello'') = [PStr ''hello''] \<and>
   handle_multiple_results False (PStr ''hello'') \<noteq> [PDict [(''raw'', PStr ''hello'')]] \<and>
   handle_multiple_results False (PList [PInt 5]) = [PInt 5] \<and>
   handle_multiple_results False (PList [PInt 5]) \<noteq> [PDict [(''raw'', PInt 5)]]"
  by simp

text \<open>
  Claim C4, amended: with \<^verbatim>\<open>auto_map\<close> off, \<^verbatim>\<open>handle_multiple_results\<close> passes each
  selected record through unchanged, a record that is not a mapping included: the elements
  of a list payload, the elements of the \<^verbatim>\<open>results\<close> list, or the payload itself.
\<close>

theorem handle_multiple_results_no_auto_map:
  "handle_multiple_results False (PList xs) = xs \<and>
   (map_of d ''results'' = Some (PList xs) \<longrightarrow> handle_multiple_results False (PDict d) = xs) \<and>
   (\<not> is_list p \<and> \<not> has_results_list p \<longrightarrow> handle_multiple_results False p = [p])"
  by (simp add: handle_multiple_results_fallback)

theorem handle_multiple_results_no_auto_map_witness:
  "map_of [(''results'', PList [PStr ''a'', PDict [(''phone'', PStr ''1'')]])] ''results''
     = Some (PList [PStr ''a'', PDict [(''phone'', PStr ''1'')]]) \<and>
   handle_multiple_results False
       (PDict [(''results'', PList [PStr ''a'', PDict [(''phone'', PStr ''1'')]])])
     = [PStr ''a'', PDict [(''phone'', PStr ''1'')]] \<and>
   \<not> is_list (PInt 5) \<and> \<not> has_results_list (PInt 5) \<and>
   handle_multiple_results False (PInt 5) = [PInt 5]"
  using handle_multiple_results_no_auto_map
    [of "[PStr ''a'', PDict [(''phone'', PStr ''1'')]]"
        "[(''results'', PList [PStr ''a'', PDict [(''phone'', PStr ''1'')]])]" "PInt 5"]
  by simp

text \<open>
  Claim C10: the output of \<^verbatim>\<open>handle_multiple_results\<close> is as long as the list of
  selected records, with no minimum. The empty list payload, and a mapping whose
  \<^verbatim>\<open>results\<close> is the empty list, give the empty sequence; the single-record fallback
  always gives length 1.
\<close>

theorem handle_multiple_results_length:
  "length (handle_multiple_results am (PList xs)) = length xs \<and>
   handle_multiple_results am (PList []) = [] \<and>
   (map_of d ''results'' = Some (PList xs) \<longrightarrow>
      length (handle_multiple_results am (PDict d)) = length xs) \<and>
   (map_of d ''results'' = Some (PList []) \<longrightarrow> handle_multiple_results am (PDict d) = []) \<and>
   (\<not> is_list p \<and> \<not> has_results_list p \<longrightarrow> length (handle_multiple_results am p) = 1)"
  by (simp add: handle_multiple_results_fallback)

theorem handle_multiple_results_length_witness:
  "map_of [(''results'', PList [])] ''results'' = Some (PList []) \<and>
   length (handle_multiple_results True (PDict [(''results'', PList [])]))
     = length ([] :: pyval list) \<and>
   handle_multiple_results True (PDict [(''results'', PList [])]) = [] \<and>
   \<not> is_list (PDict []) \<and> \<not> has_results_list (PDict []) \<and>
   length (handle_multiple_results True (PDict [])) = 1"
  using handle_multiple_results_length [of True "[]" "[(''results'', PList [])]" "PDict []"]
  by simp

section \<open>The lookup client: claims C7, C8, C9\<close>

text \<open>
  Claim C7: when the lookup call raises a \<^verbatim>\<open>requests.RequestException\<close> (connection
  error, timeout) or any other \<^verbatim>\<open>Exception\<close>, the lookup action does not raise: its
  payload is the mapping with the key \<^verbatim>\<open>error\<close> holding the message, and its status is
  the status code of the exception's response when it has one, \<^verbatim>\<open>None\<close> otherwise. This
  holds for whatever \<^verbatim>\<open>call_api\<close> raises, from \<^verbatim>\<open>requests.get\<close> or from
  \<^verbatim>\<open>response.json()\<close>.
\<close>

theorem lookup_action_catches:
  "(get API_URL [(KEY_PARAM, key), (TERM_PARAM, PStr t)] timeout
      = Raises (RequestException msg resp) \<longrightarrow>
      lookup_action False hash get key t timeout
        = Inr (PDict [(''error'', PStr msg)],
               case resp of None \<Rightarrow> None | Some r \<Rightarrow> Some (status_code r))) \<and>
   (get API_URL [(KEY_PARAM, key), (TERM_PARAM, PStr t)] timeout = Raises (Exception msg) \<longrightarrow>
      lookup_action False hash get key t timeout = Inr (PDict [(''error'', PStr msg)], None)) \<and>
   dict_get (PDict [(''error'', PStr msg)]) ''error'' = Some (PStr msg) \<and>
   (call_api get key t timeout = Inl e \<and> is_Exception e \<longrightarrow>
      lookup_action False hash get key t timeout
        = Inr (PDict [(''error'', PStr (str e))],
               if is_RequestException e
               then (case exn_response e of None \<Rightarrow> None | Some r \<Rightarrow> Some (status_code r))
               else None))"
  by (simp add: lookup_action_def call_api_def split: option.splits)

theorem lookup_action_catches_witness:
  "(\<lambda>url params timeout. Raises (RequestException ''timed out'' None))
      API_URL [(KEY_PARAM, PStr ''k''), (TERM_PARAM, PStr ''98'')] 10
     = Raises (RequestException ''timed out'' None) \<and>
   lookup_action False (\<lambda>s. 0) (\<lambda>url params timeout. Raises (RequestException ''timed out'' None))
       (PStr ''k'') ''98'' 10
     = Inr (PDict [(''error'', PStr ''timed out'')], None) \<and>
   lookup_action False (\<lambda>s. 0)
       (\<lambda>url params timeout. Raises (RequestException ''too many redirects''
          (Some (Response 302 '''' (Inl (ValueError ''no body''))))))
       (PStr ''k'') ''98'' 10
     = Inr (PDict [(''error'', PStr ''too many redirects'')], Some 302) \<and>
   lookup_action False (\<lambda>s. 0) (\<lambda>url params timeout. Raises (Exception ''boom''))
       (PStr ''k'') ''98'' 10
     = Inr (PDict [(''error'', PStr ''boom'')], None) \<and>
   call_api (\<lambda>url params timeout. Responds (Response 200 ''[[[['' (Inl (Exception ''too deep''))))
       (PStr ''k'') ''98'' 10
     = Inl (Exception ''too deep'') \<and>
   is_Exception (Exception ''too deep'') \<and>
   lookup_action False (\<lambda>s. 0)
       (\<lambda>url params timeout. Responds (Response 200 ''[[[['' (Inl (Exception ''too deep''))))
       (PStr ''k'') ''98'' 10
     = Inr (PDict [(''error'', PStr ''too deep'')], None)"
  using
    lookup_action_catches
      [of "\<lambda>url params timeout. Raises (RequestException ''timed out'' None)"
          "PStr ''k''" "''98''" 10 "''timed out''" None "\<lambda>s. 0"
          "RequestException ''timed out'' None"]
    lookup_action_catches
      [of "\<lambda>url params timeout. Raises (RequestException ''too many redirects''
             (Some (Response 302 '''' (Inl (ValueError ''no body'')))))"
          "PStr ''k''" "''98''" 10 "''too many redirects''"
          "Some (Response 302 '''' (Inl (ValueError ''no body'')))" "\<lambda>s. 0"
          "BaseException ''unused''"]
    lookup_action_catches
      [of "\<lambda>url params timeout. Raises (Exception ''boom'')"
          "PStr ''k''" "''98''" 10 "''boom''" None "\<lambda>s. 0" "Exception ''boom''"]
    lookup_action_catches
      [of "\<lambda>url params timeout. Responds (Response 200 ''[[[['' (Inl (Exception ''too deep'')))"
          "PStr ''k''" "''98''" 10 "''unused''" None "\<lambda>s. 0" "Exception ''too deep''"]
  by (simp add: call_api_def)

text \<open>
  What line 77 does catch: when \<^verbatim>\<open>response.json()\<close> raises a \<^verbatim>\<open>ValueError\<close>,
  \<^verbatim>\<open>call_api\<close> returns \<^verbatim>\<open>{"text": <body>}\<close> with the status code of the response.
\<close>

lemma call_api_json_ValueError:
  assumes "get API_URL [(KEY_PARAM, key), (TERM_PARAM, PStr t)] timeout = Responds r"
    and "json r = Inl e" and "is_ValueError e"
  shows "call_api get key t timeout = Inr (PDict [(''text'', PStr (text r))], status_code r)"
  using assms by (simp add: call_api_def)

text \<open>
  Claim C8 says that every response whose body is not JSON gives the payload
  \<^verbatim>\<open>{"text": <body>}\<close> with the status code of the response, with no exception and no
  \<^verbatim>\<open>error\<close> key. The code does not do that at a body of a thousand opening brackets,
  which is not JSON: there the decoder behind \<^verbatim>\<open>response.json()\<close> raises
  \<^verbatim>\<open>RecursionError\<close>, which is an \<^verbatim>\<open>Exception\<close> and not a \<^verbatim>\<open>ValueError\<close>. Line 77 lets
  it through, \<^verbatim>\<open>call_api\<close> raises, and the lookup action reports an \<^verbatim>\<open>error\<close> record
  with no status.
\<close>

theorem call_api_json_other_exception_escapes:
  "call_api
       (\<lambda>url params timeout. Responds (Response 200 (replicate 1000 (CHR ''[''))
          (Inl (Exception ''maximum recursion depth exceeded while decoding a JSON array''))))
       (PStr ''k'') ''98'' 10
     = Inl (Exception ''maximum recursion depth exceeded while decoding a JSON array'') \<and>
   call_api
       (\<lambda>url params timeout. Responds (Response 200 (replicate 1000 (CHR ''[''))
          (Inl (Exception ''maximum recursion depth exceeded while decoding a JSON array''))))
       (PStr ''k'') ''98'' 10
     \<noteq> Inr (PDict [(''text'', PStr (replicate 1000 (CHR ''['')))], 200) \<and>
   lookup_action False (\<lambda>s. 0)
       (\<lambda>url params timeout. Responds (Response 200 (replicate 1000 (CHR ''[''))
          (Inl (Exception ''maximum recursion depth exceeded while decoding a JSON array''))))
       (PStr ''k'') ''98'' 10
     = Inr (PDict [(''error'',
              PStr ''maximum recursion depth exceeded while decoding a JSON array'')], None)"
  by (simp add: lookup_action_def call_api_def)

text \<open>
  Claim C9: \<^verbatim>\<open>mock_lookup\<close> does not raise and returns the canned record at the index
  \<^verbatim>\<open>hash(term) % 3\<close>, one of three distinct records; the record depends on the hash
  function only through the hash of the term, so two calls in one process agree. In mock
  mode the lookup action returns that record with the status 200, whatever the network
  would do.
\<close>

theorem mock_lookup_deterministic:
  "mock_lookup hash t = Inr (samples t ! nat (hash t mod 3)) \<and>
   nat (hash t mod 3) < length (samples t) \<and>
   length (samples t) = 3 \<and>
   distinct (samples t) \<and>
   (hash t = hash' t \<longrightarrow> mock_lookup hash t = mock_lookup hash' t) \<and>
   lookup_action True hash get key t timeout = Inr (samples t ! nat (hash t mod 3), Some 200) \<and>
   lookup_action True hash get key t timeout = lookup_action True hash get' key t timeout"
proof -
  have "nat (hash t mod 3) < 3"
    by simp
  moreover have "length (samples t) = 3" "distinct (samples t)"
    by (simp_all add: samples_def)
  ultimately show ?thesis
    by (simp add: lookup_action_def mock_lookup_eq)
qed

theorem mock_lookup_deterministic_witness:
  "(\<lambda>s. - 7) ''abc'' = (\<lambda>s. if s = ''abc'' then - 7 else (0::int)) ''abc'' \<and>
   mock_lookup (\<lambda>s. - 7) ''abc'' = mock_lookup (\<lambda>s. if s = ''abc'' then - 7 else 0) ''abc'' \<and>
   mock_lookup (\<lambda>s. - 7) ''abc''
     = Inr (PDict [(''name'', PStr ''Unknown''), (''mobile'', PStr ''abc''),
                   (''note'', PStr ''No data'')])"
  using mock_lookup_deterministic
    [of "\<lambda>s. - 7" "''abc''" "\<lambda>s. if s = ''abc'' then - 7 else 0"
        "\<lambda>url params timeout. Raises (Exception ''unreachable'')" "PNone" 10
        "\<lambda>url params timeout. Raises (Exception ''unreachable'')"]
  by (auto simp add: samples_def)

end
